theory Spec2Isabelle
  imports Main
begin

section \<open>Data model\<close>

text \<open>
  The front end is three React components. \<open>RecipeSnap\<close> owns the application state
  (five \<open>useState\<close> cells), \<open>ImageUpload\<close> performs the one network call and reports
  through the props \<open>onAnalysisComplete\<close>, \<open>onError\<close> and \<open>setLoading\<close>, and
  \<open>IngredientsList\<close> keeps an editable copy of the ingredients and reports every edit
  through \<open>onIngredientsUpdate\<close>.

  JavaScript strings are modelled as Isabelle strings, read as the code units
  U+0000 to U+00FF. A recipe is the object the recipe card reads its fields from.
\<close>

record recipe =
  name :: string
  description :: string
  prep_time :: "string option"
  cook_time :: "string option"
  servings :: "nat option"
  difficulty :: "string option"
  cuisine_type :: "string option"
  recipe_ingredients :: "string list"
  instructions :: "string list"

text \<open>The payload of the full-analysis endpoint: \<open>{ingredients, recipes}\<close>.\<close>

record analysis_result =
  res_ingredients :: "string list"
  res_recipes :: "recipe list"

text \<open>\<open>currentStep\<close> is one of the strings \<open>'upload'\<close>, \<open>'ingredients'\<close>, \<open>'recipes'\<close>.\<close>

datatype step = Upload | Ingredients | Recipes

text \<open>
  A pending \<open>setTimeout(() => setCurrentStep(st), ms)\<close>. The source discards the handle
  that \<open>setTimeout\<close> returns, and no \<open>clearTimeout\<close> occurs anywhere.
\<close>

datatype timer = Timeout step nat

text \<open>
  The state of \<open>RecipeSnap\<close>: its five state cells, and the callbacks that the event loop
  still holds for it. Every timer of the program has the same delay, so the pending
  callbacks expire in the order in which they were scheduled.
\<close>

record app_state =
  ingredients :: "string list"
  recipes :: "recipe list"
  loading :: bool
  error :: "string option"
  currentStep :: step
  timers :: "timer list"

definition initial :: app_state where
  "initial = \<lparr>ingredients = [], recipes = [], loading = False, error = None,
              currentStep = Upload, timers = []\<rparr>"

section \<open>RecipeSnap: the workflow controller\<close>

definition setIngredients :: "string list \<Rightarrow> app_state \<Rightarrow> app_state" where
  "setIngredients v s = s\<lparr>ingredients := v\<rparr>"

definition setRecipes :: "recipe list \<Rightarrow> app_state \<Rightarrow> app_state" where
  "setRecipes v s = s\<lparr>recipes := v\<rparr>"

definition setLoading :: "bool \<Rightarrow> app_state \<Rightarrow> app_state" where
  "setLoading v s = s\<lparr>loading := v\<rparr>"

definition setError :: "string option \<Rightarrow> app_state \<Rightarrow> app_state" where
  "setError v s = s\<lparr>error := v\<rparr>"

definition setCurrentStep :: "step \<Rightarrow> app_state \<Rightarrow> app_state" where
  "setCurrentStep v s = s\<lparr>currentStep := v\<rparr>"

definition setTimeout :: "step \<Rightarrow> nat \<Rightarrow> app_state \<Rightarrow> app_state" where
  "setTimeout st ms s = s\<lparr>timers := timers s @ [Timeout st ms]\<rparr>"

text \<open>
  \<open>handleImageAnalysis\<close>: both lists are stored first, then the step is decided. The
  function is declared \<open>async\<close> but awaits nothing, so it runs to its end in one turn.
\<close>

definition handleImageAnalysis :: "analysis_result \<Rightarrow> app_state \<Rightarrow> app_state" where
  "handleImageAnalysis analysisResult s =
     (let s1 = setIngredients (res_ingredients analysisResult) s;
          s2 = setRecipes (res_recipes analysisResult) s1
      in if length (res_ingredients analysisResult) > 0
         then (let s3 = setCurrentStep Ingredients s2
               in if length (res_recipes analysisResult) > 0
                  then setTimeout Recipes 1000 s3
                  else s3)
         else s2)"

definition handleError :: "string \<Rightarrow> app_state \<Rightarrow> app_state" where
  "handleError errorMessage s = setLoading False (setError (Some errorMessage) s)"

definition resetApp :: "app_state \<Rightarrow> app_state" where
  "resetApp s = setCurrentStep Upload (setError None (setRecipes [] (setIngredients [] s)))"

text \<open>The \<open>\<times>\<close> button of the error banner: \<open>onClick={() => setError(null)}\<close>.\<close>

definition dismissError :: "app_state \<Rightarrow> app_state" where
  "dismissError s = setError None s"

text \<open>
  The event loop runs the callback of the oldest pending timer. With no timer pending,
  nothing happens.
\<close>

definition fireTimer :: "app_state \<Rightarrow> app_state" where
  "fireTimer s =
     (case timers s of
        [] \<Rightarrow> s
      | Timeout st ms # rest \<Rightarrow> setCurrentStep st (s\<lparr>timers := rest\<rparr>))"

section \<open>ImageUpload: the analysis client\<close>

text \<open>
  What \<open>await axios.post(...)\<close> gives back. A fulfilled promise carries the response,
  whose \<open>data\<close> is the parsed body, or nothing when the body is empty (a falsy value).
  A rejected promise carries the error that the \<open>catch\<close> block inspects: its \<open>code\<close>,
  its \<open>response\<close> (present when the server answered with a status outside 2xx),
  whether its \<open>request\<close> is set, and its \<open>message\<close>. The request is made with
  \<open>timeout: 60000\<close>; when that time is exceeded the library rejects with the code
  \<open>ECONNABORTED\<close>.

  The \<open>catch\<close> block reads \<open>error.response.data.detail\<close>, tests whether it is truthy and
  puts it into a template literal. A value of the language is modelled by what these
  two operations make of it: \<open>undefined\<close> (also what reading a missing field gives),
  \<open>null\<close>, a string, or any other value (a boolean, a number, an array, an object), which
  is given by its truth value and by the string that it converts to. So \<open>false\<close> is
  \<open>JOther False ''false''\<close>, and an array that holds one object is
  \<open>JOther True ''[object Object]''\<close>.
\<close>

datatype js_value = JUndefined | JNull | JString string | JOther bool string

fun ToBoolean :: "js_value \<Rightarrow> bool" where
  "ToBoolean JUndefined = False"
| "ToBoolean JNull = False"
| "ToBoolean (JString x) = (x \<noteq> [])"
| "ToBoolean (JOther t x) = t"

fun ToString :: "js_value \<Rightarrow> string" where
  "ToString JUndefined = ''undefined''"
| "ToString JNull = ''null''"
| "ToString (JString x) = x"
| "ToString (JOther t x) = x"

text \<open>
  The body of an error response: \<open>NoData\<close> when \<open>data\<close> is \<open>null\<close> or \<open>undefined\<close>, where
  reading \<open>data.detail\<close> throws a \<open>TypeError\<close>; otherwise \<open>Data d\<close>, where \<open>d\<close> is what
  reading \<open>data.detail\<close> gives.
\<close>

datatype error_data = NoData | Data js_value

datatype js_exception = TypeError

record http_response =
  data :: "analysis_result option"

record error_response =
  err_data :: error_data
  statusText :: string

record axios_error =
  code :: "string option"
  response :: "error_response option"
  request :: bool
  message :: string

datatype axios_outcome = Resolved http_response | Rejected axios_error

text \<open>The calls that \<open>ImageUpload\<close> makes on the props it was given.\<close>

datatype prop_call = SetLoading bool | OnAnalysisComplete analysis_result | OnError string

text \<open>The uploaded file, identified by its name; \<open>None\<close> is \<open>null\<close>.\<close>

type_synonym image_file = string

text \<open>
  The \<open>catch\<close> block of \<open>analyzeImage\<close>: the message that it passes to \<open>onError\<close>, or
  the exception that it throws before it gets there.
\<close>

definition catch_message :: "axios_error \<Rightarrow> js_exception + string" where
  "catch_message e =
     (if code e = Some ''ECONNABORTED''
      then Inr ''Request timed out. Please try again with a smaller image.''
      else case response e of
        Some r \<Rightarrow>
          (case err_data r of
             NoData \<Rightarrow> Inl TypeError
           | Data d \<Rightarrow>
               Inr (''Server error: '' @ (if ToBoolean d then ToString d else statusText r)))
      | None \<Rightarrow>
          if request e
          then Inr ''Unable to connect to server. Please check if the backend is running.''
          else Inr (''Error: '' @ message e))"

text \<open>
  \<open>analyzeImage\<close> after its \<open>await\<close>: the rest of the \<open>try\<close> body, or the \<open>catch\<close>
  block, and then the \<open>finally\<close> block. When the \<open>catch\<close> block throws, \<open>onError\<close> is
  not called; the \<open>finally\<close> block runs all the same, and the exception leaves the
  function with nobody to handle it.
\<close>

definition analyzeImage_settle :: "axios_outcome \<Rightarrow> prop_call list" where
  "analyzeImage_settle outcome =
     (case outcome of
        Resolved resp \<Rightarrow>
          (case data resp of
             Some d \<Rightarrow> [OnAnalysisComplete d]
           | None \<Rightarrow> [OnError ''No data received from server''])
      | Rejected e \<Rightarrow>
          (case catch_message e of
             Inr m \<Rightarrow> [OnError m]
           | Inl x \<Rightarrow> []))
     @ [SetLoading False]"

text \<open>\<open>analyzeImage\<close> up to its \<open>await\<close>.\<close>

definition analyzeImage_begin :: "image_file option \<Rightarrow> prop_call list" where
  "analyzeImage_begin uploadedImage =
     (case uploadedImage of
        None \<Rightarrow> [OnError ''Please select an image first'']
      | Some f \<Rightarrow> [SetLoading True])"

text \<open>
  One whole call of \<open>analyzeImage\<close>. Without a file it returns before the request is
  made, outside the \<open>try\<close>, so the \<open>finally\<close> block does not run.
\<close>

definition analyzeImage :: "image_file option \<Rightarrow> axios_outcome \<Rightarrow> prop_call list" where
  "analyzeImage uploadedImage outcome =
     (case uploadedImage of
        None \<Rightarrow> analyzeImage_begin uploadedImage
      | Some f \<Rightarrow> analyzeImage_begin uploadedImage @ analyzeImage_settle outcome)"

text \<open>
  The props as \<open>RecipeSnap\<close> passes them: \<open>onAnalysisComplete={handleImageAnalysis}\<close>,
  \<open>onError={handleError}\<close>, \<open>setLoading={setLoading}\<close>.
\<close>

fun call_prop :: "prop_call \<Rightarrow> app_state \<Rightarrow> app_state" where
  "call_prop (SetLoading b) s = setLoading b s"
| "call_prop (OnAnalysisComplete d) s = handleImageAnalysis d s"
| "call_prop (OnError m) s = handleError m s"

fun call_props :: "prop_call list \<Rightarrow> app_state \<Rightarrow> app_state" where
  "call_props [] s = s"
| "call_props (c # cs) s = call_props cs (call_prop c s)"

text \<open>The calls of a run that report its outcome.\<close>

fun is_outcome :: "prop_call \<Rightarrow> bool" where
  "is_outcome (SetLoading b) = False"
| "is_outcome (OnAnalysisComplete d) = True"
| "is_outcome (OnError m) = True"

section \<open>IngredientsList: editing the ingredients\<close>

text \<open>
  The component keeps the text of its input field and its own copy of the list, which
  \<open>useState(ingredients)\<close> takes from the prop when the component is mounted.
\<close>

record list_state =
  customIngredient :: string
  editableIngredients :: "string list"

definition mountIngredientsList :: "string list \<Rightarrow> list_state" where
  "mountIngredientsList ingredients_prop =
     \<lparr>customIngredient = [], editableIngredients = ingredients_prop\<rparr>"

definition setCustomIngredient :: "string \<Rightarrow> list_state \<Rightarrow> list_state" where
  "setCustomIngredient v c = c\<lparr>customIngredient := v\<rparr>"

definition setEditableIngredients :: "string list \<Rightarrow> list_state \<Rightarrow> list_state" where
  "setEditableIngredients v c = c\<lparr>editableIngredients := v\<rparr>"

text \<open>
  \<open>String.prototype.trim\<close> strips white space and line terminators from both ends.
  Among the code units U+0000 to U+00FF these are TAB, LF, VT, FF, CR, SPACE and the
  no-break space.
\<close>

definition isWhiteSpace :: "char \<Rightarrow> bool" where
  "isWhiteSpace c =
     (c = CHR 0x09 \<or> c = CHR 0x0A \<or> c = CHR 0x0B \<or> c = CHR 0x0C \<or> c = CHR 0x0D
      \<or> c = CHR 0x20 \<or> c = CHR 0xA0)"

definition trim :: "string \<Rightarrow> string" where
  "trim s = rev (dropWhile isWhiteSpace (rev (dropWhile isWhiteSpace s)))"

text \<open>\<open>Array.prototype.includes\<close> on strings.\<close>

definition includes_string :: "string list \<Rightarrow> string \<Rightarrow> bool" where
  "includes_string xs x = (x \<in> set xs)"

text \<open>\<open>Array.prototype.filter\<close> with a callback that reads the element and its index.\<close>

definition filter_index :: "('a \<Rightarrow> nat \<Rightarrow> bool) \<Rightarrow> 'a list \<Rightarrow> 'a list" where
  "filter_index p xs = map snd (filter (\<lambda>(i, x). p x i) (enumerate 0 xs))"

text \<open>
  The two edit handlers. \<open>RecipeSnap\<close> passes \<open>onIngredientsUpdate={setIngredients}\<close>,
  so each handler acts on the state of the list component and on the state of the
  application.
\<close>

definition removeIngredient :: "nat \<Rightarrow> list_state \<times> app_state \<Rightarrow> list_state \<times> app_state" where
  "removeIngredient index ca =
     (let updated = filter_index (\<lambda>_ i. i \<noteq> index) (editableIngredients (fst ca))
      in (setEditableIngredients updated (fst ca), setIngredients updated (snd ca)))"

definition addCustomIngredient :: "list_state \<times> app_state \<Rightarrow> list_state \<times> app_state" where
  "addCustomIngredient ca =
     (if trim (customIngredient (fst ca)) \<noteq> []
         \<and> \<not> includes_string (editableIngredients (fst ca)) (trim (customIngredient (fst ca)))
      then (let updated = editableIngredients (fst ca) @ [trim (customIngredient (fst ca))]
            in (setCustomIngredient [] (setEditableIngredients updated (fst ca)),
                setIngredients updated (snd ca)))
      else ca)"

text \<open>
  The user's two edit actions: typing a text into the input field and pressing Add (or
  Enter), and pressing the remove button of the entry at an index.
\<close>

datatype edit = Add string | Remove nat

fun edit_step :: "edit \<Rightarrow> list_state \<times> app_state \<Rightarrow> list_state \<times> app_state" where
  "edit_step (Add v) ca = addCustomIngredient (setCustomIngredient v (fst ca), snd ca)"
| "edit_step (Remove i) ca = removeIngredient i ca"

fun edit_steps :: "edit list \<Rightarrow> list_state \<times> app_state \<Rightarrow> list_state \<times> app_state" where
  "edit_steps [] ca = ca"
| "edit_steps (e # es) ca = edit_steps es (edit_step e ca)"

section \<open>Sample data\<close>

definition salad :: recipe where
  "salad = \<lparr>name = ''Tomato salad'', description = ''A quick salad'',
            prep_time = Some ''10 minutes'', cook_time = None, servings = Some 2,
            difficulty = Some ''easy'', cuisine_type = None,
            recipe_ingredients = [''2 tomatoes'', ''1 onion''],
            instructions = [''Slice'', ''Mix'']\<rparr>"

definition tomato_onion :: app_state where
  "tomato_onion =
     handleImageAnalysis \<lparr>res_ingredients = [''tomato'', ''onion''], res_recipes = []\<rparr> initial"

text \<open>The error of a response with status 500 whose body is \<open>null\<close>.\<close>

definition null_body_error :: axios_error where
  "null_body_error =
     \<lparr>code = Some ''ERR_BAD_RESPONSE'',
      response = Some \<lparr>err_data = NoData, statusText = ''Internal Server Error''\<rparr>,
      request = True, message = ''Request failed with status code 500''\<rparr>"

section \<open>The message of a server error in the specification\<close>


section \<open>Auxiliary facts\<close>

lemmas app_defs = setIngredients_def setRecipes_def setLoading_def setError_def
  setCurrentStep_def setTimeout_def handleImageAnalysis_def handleError_def resetApp_def
  dismissError_def

lemmas upload_defs = analyzeImage_def analyzeImage_begin_def analyzeImage_settle_def

lemma fireTimer_idle: "timers s = [] \<Longrightarrow> fireTimer s = s"
  by (simp add: fireTimer_def)

lemma fireTimer_funpow_idle: "timers s = [] \<Longrightarrow> (fireTimer ^^ n) s = s"
  by (induction n) (simp_all add: fireTimer_idle)

lemma enumerate_filter_above:
  "m < n \<Longrightarrow> filter (\<lambda>(j, x). j \<noteq> m) (enumerate n xs) = enumerate n xs"
  by (induction xs arbitrary: n) auto

lemma enumerate_remove:
  "map snd (filter (\<lambda>(j, x). j \<noteq> n + i) (enumerate n xs)) = take i xs @ drop (Suc i) xs"
proof (induction xs arbitrary: n i)
  case Nil
  show ?case by simp
next
  case (Cons x xs)
  show ?case
  proof (cases i)
    case 0
    then show ?thesis by (simp add: enumerate_filter_above)
  next
    case (Suc k)
    with Cons.IH [of "Suc n" k] show ?thesis by simp
  qed
qed

text \<open>Filtering on \<open>i !== index\<close> deletes the entry at that index, if there is one.\<close>

lemma filter_index_remove:
  "filter_index (\<lambda>_ j. j \<noteq> i) xs = take i xs @ drop (Suc i) xs"
  using enumerate_remove [of 0 i xs] by (simp add: filter_index_def)

lemma loading_cleared: "loading (call_props (analyzeImage u out) s) = False"
  by (simp add: upload_defs app_defs Let_def
      split: option.splits axios_outcome.splits sum.splits)

lemma add_step:
  "edit_step (Add v) (c, a) =
     (if trim v \<noteq> [] \<and> trim v \<notin> set (editableIngredients c)
      then (c\<lparr>customIngredient := [],
              editableIngredients := editableIngredients c @ [trim v]\<rparr>,
            a\<lparr>ingredients := editableIngredients c @ [trim v]\<rparr>)
      else (c\<lparr>customIngredient := v\<rparr>, a))"
  by (simp add: addCustomIngredient_def setCustomIngredient_def setEditableIngredients_def
      setIngredients_def includes_string_def Let_def)

lemma remove_step:
  "edit_step (Remove i) (c, a) =
     (c\<lparr>editableIngredients :=
          take i (editableIngredients c) @ drop (Suc i) (editableIngredients c)\<rparr>,
      a\<lparr>ingredients :=
          take i (editableIngredients c) @ drop (Suc i) (editableIngredients c)\<rparr>)"
  by (simp add: removeIngredient_def filter_index_remove setEditableIngredients_def
      setIngredients_def Let_def)

lemma trim_salt: "trim ''salt'' = ''salt''"
  by (simp add: trim_def isWhiteSpace_def)

lemma trim_blank: "trim ''  '' = []"
  by (simp add: trim_def isWhiteSpace_def)

lemma trim_space_salt: "trim '' salt'' = ''salt''"
  by (simp add: trim_def isWhiteSpace_def)

lemma edit_step_frame:
  "currentStep (snd (edit_step e ca)) = currentStep (snd ca)
   \<and> recipes (snd (edit_step e ca)) = recipes (snd ca)
   \<and> error (snd (edit_step e ca)) = error (snd ca)
   \<and> loading (snd (edit_step e ca)) = loading (snd ca)
   \<and> timers (snd (edit_step e ca)) = timers (snd ca)"
  by (cases e)
     (simp_all add: addCustomIngredient_def removeIngredient_def setIngredients_def Let_def)

lemma tomato_onion_eq:
  "tomato_onion = \<lparr>ingredients = [''tomato'', ''onion''], recipes = [], loading = False,
     error = None, currentStep = Ingredients, timers = []\<rparr>"
  by (simp add: tomato_onion_def initial_def app_defs)

section \<open>The workflow controller\<close>

text \<open>
  With no timer pending, an analysis result that arrives in the step \<open>Upload\<close> does what
  the workflow asks: with no ingredients the step stays \<open>Upload\<close>; with ingredients and
  no recipes the step becomes \<open>Ingredients\<close>, no timer is scheduled, and however often
  the event loop looks for a timer the step stays \<open>Ingredients\<close>; with ingredients and
  recipes the step becomes \<open>Ingredients\<close> and one timer of 1000 ms is scheduled, whose
  callback sets the step to \<open>Recipes\<close>.
\<close>

lemma handleImageAnalysis_no_timer_pending:
  assumes "currentStep s = Upload" and "timers s = []"
  shows "(res_ingredients r = [] \<longrightarrow>
            currentStep (handleImageAnalysis r s) = Upload
            \<and> (\<forall>n. currentStep ((fireTimer ^^ n) (handleImageAnalysis r s)) = Upload))
       \<and> (res_ingredients r \<noteq> [] \<and> res_recipes r = [] \<longrightarrow>
            currentStep (handleImageAnalysis r s) = Ingredients
            \<and> timers (handleImageAnalysis r s) = []
            \<and> (\<forall>n. currentStep ((fireTimer ^^ n) (handleImageAnalysis r s)) = Ingredients))
       \<and> (res_ingredients r \<noteq> [] \<and> res_recipes r \<noteq> [] \<longrightarrow>
            currentStep (handleImageAnalysis r s) = Ingredients
            \<and> timers (handleImageAnalysis r s) = [Timeout Recipes 1000]
            \<and> currentStep (fireTimer (handleImageAnalysis r s)) = Recipes)"
proof (intro conjI impI)
  assume e: "res_ingredients r = []"
  then have t: "timers (handleImageAnalysis r s) = []"
    using assms by (simp add: app_defs)
  show "currentStep (handleImageAnalysis r s) = Upload"
    using e assms by (simp add: app_defs)
  then show "\<forall>n. currentStep ((fireTimer ^^ n) (handleImageAnalysis r s)) = Upload"
    by (simp add: fireTimer_funpow_idle [OF t])
next
  assume e: "res_ingredients r \<noteq> [] \<and> res_recipes r = []"
  then show t: "timers (handleImageAnalysis r s) = []"
    using assms by (simp add: app_defs)
  show "currentStep (handleImageAnalysis r s) = Ingredients"
    using e by (simp add: app_defs)
  then show "\<forall>n. currentStep ((fireTimer ^^ n) (handleImageAnalysis r s)) = Ingredients"
    by (simp add: fireTimer_funpow_idle [OF t])
next
  assume e: "res_ingredients r \<noteq> [] \<and> res_recipes r \<noteq> []"
  then show "currentStep (handleImageAnalysis r s) = Ingredients"
    by (simp add: app_defs)
  from e show "timers (handleImageAnalysis r s) = [Timeout Recipes 1000]"
    using assms by (simp add: app_defs)
  from e show "currentStep (fireTimer (handleImageAnalysis r s)) = Recipes"
    using assms by (simp add: app_defs fireTimer_def)
qed

text \<open>
  Claim C1. The claim asks that, from the initial \<open>Upload\<close> state, a result without
  ingredients leaves the step at \<open>Upload\<close> and a result with ingredients and without
  recipes stops at \<open>Ingredients\<close>. The code breaks both after a Reset that came before
  the timer of an earlier result fired: the five state cells are the initial ones, the
  timer is still pending, and once it fires the step is \<open>Recipes\<close>, for the result
  tomato, onion without recipes and for the empty result alike.
\<close>

theorem stale_timer_advances_new_result:
  "resetApp (handleImageAnalysis
      \<lparr>res_ingredients = [''tomato''], res_recipes = [salad]\<rparr> initial) =
     initial\<lparr>timers := [Timeout Recipes 1000]\<rparr>
   \<and> currentStep (handleImageAnalysis
        \<lparr>res_ingredients = [''tomato'', ''onion''], res_recipes = []\<rparr>
        (initial\<lparr>timers := [Timeout Recipes 1000]\<rparr>)) = Ingredients
   \<and> currentStep (fireTimer (handleImageAnalysis
        \<lparr>res_ingredients = [''tomato'', ''onion''], res_recipes = []\<rparr>
        (initial\<lparr>timers := [Timeout Recipes 1000]\<rparr>))) = Recipes
   \<and> currentStep (handleImageAnalysis \<lparr>res_ingredients = [], res_recipes = []\<rparr>
        (initial\<lparr>timers := [Timeout Recipes 1000]\<rparr>)) = Upload
   \<and> currentStep (fireTimer (handleImageAnalysis \<lparr>res_ingredients = [], res_recipes = []\<rparr>
        (initial\<lparr>timers := [Timeout Recipes 1000]\<rparr>))) = Recipes"
  by (simp add: app_defs fireTimer_def initial_def)



text \<open>
  Claim C3. The claim asks that a Reset before the delay has elapsed keeps the scheduled
  transition from firing, so that the step remains \<open>Upload\<close>. The code does not cancel
  the timer: after the result tomato with one recipe and a Reset the step is \<open>Upload\<close>,
  and when the timer fires the step is \<open>Recipes\<close>, with no ingredients and no recipes
  in the state.
\<close>

theorem stale_timer_fires_after_reset:
  "currentStep (resetApp (handleImageAnalysis
      \<lparr>res_ingredients = [''tomato''], res_recipes = [salad]\<rparr> initial)) = Upload
   \<and> currentStep (fireTimer (resetApp (handleImageAnalysis
        \<lparr>res_ingredients = [''tomato''], res_recipes = [salad]\<rparr> initial))) = Recipes
   \<and> ingredients (fireTimer (resetApp (handleImageAnalysis
        \<lparr>res_ingredients = [''tomato''], res_recipes = [salad]\<rparr> initial))) = []
   \<and> recipes (fireTimer (resetApp (handleImageAnalysis
        \<lparr>res_ingredients = [''tomato''], res_recipes = [salad]\<rparr> initial))) = []"
  by (simp add: app_defs fireTimer_def initial_def)

text \<open>
  Claim C10. Whatever the state, an analysis result replaces the stored ingredients and
  recipes by its own. A result with no ingredients changes nothing else: the step and
  every other part of the state stay as they were, and the ingredients held before are
  gone.
\<close>

theorem handleImageAnalysis_replaces_data:
  "ingredients (handleImageAnalysis r s) = res_ingredients r
   \<and> recipes (handleImageAnalysis r s) = res_recipes r
   \<and> (res_ingredients r = [] \<longrightarrow>
        handleImageAnalysis r s = s\<lparr>ingredients := [], recipes := res_recipes r\<rparr>
        \<and> currentStep (handleImageAnalysis r s) = currentStep s)"
  by (simp add: app_defs Let_def)

theorem handleImageAnalysis_replaces_data_witness:
  "res_ingredients \<lparr>res_ingredients = [], res_recipes = []\<rparr> = []
   \<and> handleImageAnalysis \<lparr>res_ingredients = [], res_recipes = []\<rparr>
        (initial\<lparr>ingredients := [''tomato'', ''onion''], recipes := [salad]\<rparr>) = initial
   \<and> currentStep (handleImageAnalysis \<lparr>res_ingredients = [], res_recipes = []\<rparr>
        (initial\<lparr>ingredients := [''tomato'', ''onion''], recipes := [salad]\<rparr>)) = Upload"
proof -
  have h: "res_ingredients \<lparr>res_ingredients = [], res_recipes = []\<rparr> = []"
    by simp
  from handleImageAnalysis_replaces_data
         [of "\<lparr>res_ingredients = [], res_recipes = []\<rparr>"
             "initial\<lparr>ingredients := [''tomato'', ''onion''], recipes := [salad]\<rparr>"]
  show ?thesis by (simp add: initial_def)
qed

section \<open>The analysis client\<close>

text \<open>
  Claim C4. The claim asks that every call reports exactly one outcome, and that a
  response with a status that is not a success gives a server error. The code reports
  no outcome when the body of such a response is \<open>null\<close>: reading its \<open>detail\<close> throws
  inside the \<open>catch\<close> block, \<open>onError\<close> is not called, and only the \<open>finally\<close> block
  runs. The application shows no error.
\<close>

theorem null_body_no_outcome:
  "analyzeImage (Some ''fridge.jpg'') (Rejected null_body_error) =
     [SetLoading True, SetLoading False]
   \<and> filter is_outcome (analyzeImage (Some ''fridge.jpg'') (Rejected null_body_error)) = []
   \<and> call_props (analyzeImage (Some ''fridge.jpg'') (Rejected null_body_error)) initial =
       initial"
  by (simp add: upload_defs catch_message_def null_body_error_def app_defs initial_def)

text \<open>
  Claim C5. When the request is abandoned after its 60 seconds (the rejection with code
  \<open>ECONNABORTED\<close>), the one outcome is the time-out message; in the application the
  message becomes the error, the busy flag is false, and the step and everything else
  are as before. The busy flag is false after a call that succeeds as well.
\<close>

theorem analyzeImage_timeout:
  assumes "code e = Some ''ECONNABORTED''"
  shows "filter is_outcome (analyzeImage (Some f) (Rejected e)) =
           [OnError ''Request timed out. Please try again with a smaller image.'']
       \<and> call_props (analyzeImage (Some f) (Rejected e)) s =
           s\<lparr>loading := False,
             error := Some ''Request timed out. Please try again with a smaller image.''\<rparr>
       \<and> currentStep (call_props (analyzeImage (Some f) (Rejected e)) s) = currentStep s
       \<and> loading (call_props (analyzeImage (Some f) (Rejected e)) s) = False
       \<and> loading (call_props (analyzeImage (Some f) (Resolved resp)) s) = False"
  using assms
  by (simp add: loading_cleared) (simp add: upload_defs app_defs catch_message_def)

theorem analyzeImage_timeout_witness:
  "code \<lparr>code = Some ''ECONNABORTED'', response = None, request = True,
          message = ''timeout of 60000ms exceeded''\<rparr> = Some ''ECONNABORTED''
   \<and> call_props (analyzeImage (Some ''fridge.jpg'')
        (Rejected \<lparr>code = Some ''ECONNABORTED'', response = None, request = True,
                   message = ''timeout of 60000ms exceeded''\<rparr>))
        (initial\<lparr>loading := True\<rparr>) =
       initial\<lparr>error := Some ''Request timed out. Please try again with a smaller image.''\<rparr>
   \<and> loading (call_props (analyzeImage (Some ''fridge.jpg'')
        (Resolved \<lparr>data = Some \<lparr>res_ingredients = [''tomato''], res_recipes = []\<rparr>\<rparr>))
        (initial\<lparr>loading := True\<rparr>)) = False"
proof -
  have h: "code \<lparr>code = Some ''ECONNABORTED'', response = None, request = True,
          message = ''timeout of 60000ms exceeded''\<rparr> = Some ''ECONNABORTED''"
    by simp
  from analyzeImage_timeout [OF h, of "''fridge.jpg''" "initial\<lparr>loading := True\<rparr>"
         "\<lparr>data = Some \<lparr>res_ingredients = [''tomato''], res_recipes = []\<rparr>\<rparr>"] h
  show ?thesis by (simp add: initial_def)
qed

text \<open>
  Claim C6, as the code has it. Starting an analysis does not clear the error message:
  it is the same while the request is under way and after a successful outcome. After
  the call the message is the one from before, unless the call reports an error, whose
  message then takes its place.
\<close>

theorem analyzeImage_keeps_error:
  "error (call_props (analyzeImage_begin (Some f)) s) = error s
   \<and> error (call_props (analyzeImage (Some f) (Resolved \<lparr>data = Some d\<rparr>)) s) = error s
   \<and> error (call_props (analyzeImage (Some f) out) s) =
       (case filter is_outcome (analyzeImage (Some f) out) of
          OnError m # cs \<Rightarrow> Some m
        | _ \<Rightarrow> error s)"
  by (simp add: upload_defs app_defs Let_def split: axios_outcome.splits option.splits sum.splits)

theorem error_survives_analysis_counterexample:
  "error (call_props (analyzeImage_begin (Some ''fridge.jpg''))
      (initial\<lparr>error := Some ''Server error: Bad Gateway''\<rparr>)) =
     Some ''Server error: Bad Gateway''
   \<and> error (call_props (analyzeImage (Some ''fridge.jpg'')
        (Resolved \<lparr>data = Some \<lparr>res_ingredients = [''tomato''], res_recipes = []\<rparr>\<rparr>))
      (initial\<lparr>error := Some ''Server error: Bad Gateway''\<rparr>)) =
     Some ''Server error: Bad Gateway''"
  by (simp add: upload_defs app_defs initial_def)




section \<open>Editing the ingredients\<close>

text \<open>
  Claim C7, as the code has it. The add action trims the text of the input field. When
  the trimmed text is not empty and not yet in the list, it is appended at the end, in
  the list of the component and in the application state, and the input field is
  emptied; otherwise both lists stay as they are. The remove action at an index deletes
  the entry at that index and keeps the order of the others. From tomato, onion, adding
  salt gives tomato, onion, salt; removing index 0 then gives onion, salt.
\<close>

theorem edit_step_add_remove:
  "edit_step (Add v) (c, a) =
     (if trim v \<noteq> [] \<and> trim v \<notin> set (editableIngredients c)
      then (c\<lparr>customIngredient := [],
              editableIngredients := editableIngredients c @ [trim v]\<rparr>,
            a\<lparr>ingredients := editableIngredients c @ [trim v]\<rparr>)
      else (c\<lparr>customIngredient := v\<rparr>, a))
   \<and> edit_step (Remove i) (c, a) =
       (c\<lparr>editableIngredients :=
            take i (editableIngredients c) @ drop (Suc i) (editableIngredients c)\<rparr>,
        a\<lparr>ingredients :=
            take i (editableIngredients c) @ drop (Suc i) (editableIngredients c)\<rparr>)
   \<and> edit_step (Add ''salt'') (mountIngredientsList (ingredients tomato_onion), tomato_onion) =
       (mountIngredientsList [''tomato'', ''onion'', ''salt''],
        tomato_onion\<lparr>ingredients := [''tomato'', ''onion'', ''salt'']\<rparr>)
   \<and> edit_step (Remove 0)
        (mountIngredientsList [''tomato'', ''onion'', ''salt''],
         tomato_onion\<lparr>ingredients := [''tomato'', ''onion'', ''salt'']\<rparr>) =
       (mountIngredientsList [''onion'', ''salt''],
        tomato_onion\<lparr>ingredients := [''onion'', ''salt'']\<rparr>)"
proof (intro conjI)
  show "edit_step (Add ''salt'') (mountIngredientsList (ingredients tomato_onion), tomato_onion) =
       (mountIngredientsList [''tomato'', ''onion'', ''salt''],
        tomato_onion\<lparr>ingredients := [''tomato'', ''onion'', ''salt'']\<rparr>)"
    by (simp only: add_step trim_salt) (simp add: tomato_onion_eq mountIngredientsList_def)
  show "edit_step (Remove 0)
        (mountIngredientsList [''tomato'', ''onion'', ''salt''],
         tomato_onion\<lparr>ingredients := [''tomato'', ''onion'', ''salt'']\<rparr>) =
       (mountIngredientsList [''onion'', ''salt''],
        tomato_onion\<lparr>ingredients := [''onion'', ''salt'']\<rparr>)"
    by (simp only: remove_step) (simp add: tomato_onion_eq mountIngredientsList_def)
qed (rule add_step, rule remove_step)

text \<open>
  Two texts that are not in the list: the blank one is not appended, and of the one with
  a leading space the trimmed text is appended, not the text itself.
\<close>

theorem add_untrimmed_counterexample:
  "''  '' \<notin> set (ingredients tomato_onion)
   \<and> ingredients (snd (edit_step (Add ''  '')
        (mountIngredientsList (ingredients tomato_onion), tomato_onion))) =
       [''tomato'', ''onion'']
   \<and> '' salt'' \<notin> set (ingredients tomato_onion)
   \<and> ingredients (snd (edit_step (Add '' salt'')
        (mountIngredientsList (ingredients tomato_onion), tomato_onion))) =
       [''tomato'', ''onion'', ''salt'']"
  by (simp only: add_step trim_blank trim_space_salt)
     (simp add: tomato_onion_eq mountIngredientsList_def)

text \<open>
  Claim C8. Whatever add and remove actions are performed, in whatever state, the step,
  the recipes, the error message, the busy flag and the pending timers of the
  application are the ones from before: the edits change the ingredients only.
\<close>

theorem edit_steps_frame:
  "currentStep (snd (edit_steps es ca)) = currentStep (snd ca)
   \<and> recipes (snd (edit_steps es ca)) = recipes (snd ca)
   \<and> error (snd (edit_steps es ca)) = error (snd ca)
   \<and> loading (snd (edit_steps es ca)) = loading (snd ca)
   \<and> timers (snd (edit_steps es ca)) = timers (snd ca)"
proof (induction es arbitrary: ca)
  case Nil
  show ?case by simp
next
  case (Cons e es)
  from Cons.IH [of "edit_step e ca"] edit_step_frame [of e ca] show ?case by simp
qed

end
